theory Spec2Isabelle
  imports Main
begin

section \<open>The shared session store (internal/mcp/session/redis.go)\<close>

subsection \<open>Data\<close>

text \<open>
  \<open>Meta\<close> and \<open>Message\<close> are declared in a file of the session package that is not part
  of this development; their fields are the ones the code under study reads and writes
  (\<open>Meta{ID, CreatedAt, Prefix, Type}\<close>, \<open>Message.Event\<close>, \<open>Message.Data\<close>). Times are
  abstract ticks.
\<close>

record Meta =
  ID :: string
  CreatedAt :: nat
  Prefix :: string
  Type :: string

record Message =
  Event :: string
  Data :: string

text \<open>
  A Go channel of \<open>*Message\<close>: the buffered pointers (\<open>None\<close> is the nil pointer), the
  capacity given to \<open>make\<close>, and whether \<open>close\<close> was called on it.
\<close>

record chan =
  buf :: "Message option list"
  cap :: nat
  closed :: bool

text \<open>
  \<open>RedisConnection\<close>: the \<open>store\<close> back pointer always leads to the one store; \<open>queue\<close> is
  the address of the channel in the heap of channels. Every connection object is allocated
  together with its channel, so the address also identifies the object.
\<close>

record RedisConnection =
  meta :: Meta
  queue :: nat

text \<open>
  The update that crosses the pub/sub topic. \<open>UpdateJSON u\<close> stands for the bytes
  \<open>json.Marshal\<close> produces for \<open>u\<close>, which \<open>json.Unmarshal\<close> reads back as \<open>u\<close>;
  \<open>BadPayload\<close> is a payload that does not decode.
\<close>

record update =
  Action :: string
  UMeta :: "Meta option"
  UMessage :: "Message option"

datatype payload = UpdateJSON update | BadPayload string

text \<open>
  The Redis keyspace: a key holds a string value or a set. \<open>MetaJSON m\<close> stands for the
  encoding of \<open>m\<close>; \<open>RawBytes\<close> for bytes that do not decode to a \<open>Meta\<close>.
\<close>

datatype bytes = MetaJSON Meta | RawBytes string

datatype rvalue = RString bytes | RSet "string set"

datatype redis_error = RedisNil | WrongType | RedisDown

datatype error = ErrSessionNotFound | Errorf string | RedisErr redis_error

text \<open>
  What can fail for reasons outside the program during one call: the two \<open>json.Marshal\<close>
  calls and each Redis command. A call of the store takes a predicate saying which of them
  fail.
\<close>

datatype fault =
  MarshalMeta | MarshalUpdate | CmdSet | CmdSAdd | CmdPublish | CmdSIsMember | CmdGet
  | CmdDel | CmdSRem

datatype level = DebugLevel | InfoLevel | WarnLevel | ErrorLevel | FatalLevel

text \<open>A call of the zap logger: \<open>String k v\<close> is \<open>zap.String(k, v)\<close>, \<open>Error\<close> is \<open>zap.Error(err)\<close>.\<close>

datatype field = String string string | Error

record log_entry =
  lvl :: level
  msg :: string
  flds :: "field list"

text \<open>
  The state of one replica's store and of what it talks to: the keyspace of the Redis
  server, the payloads that have arrived on the subscription to the topic and that
  \<open>handleUpdates\<close> has not taken yet, the map \<open>connections\<close>, the heap of channels with its
  next free address, and the calls made to the logger.
\<close>

record RedisStore =
  redis :: "string \<rightharpoonup> rvalue"
  pubsub :: "payload list"
  connections :: "string \<rightharpoonup> RedisConnection"
  chans :: "nat \<rightharpoonup> chan"
  nxt :: nat
  logger :: "log_entry list"

definition prefix :: string where
  "prefix = ''session:''"

subsection \<open>Redis commands\<close>

definition redis_Set :: "(fault \<Rightarrow> bool) \<Rightarrow> string \<Rightarrow> bytes \<Rightarrow> RedisStore \<Rightarrow> redis_error option \<times> RedisStore" where
  "redis_Set F key data s =
     (if F CmdSet then (Some RedisDown, s)
      else (None, s\<lparr>redis := (redis s)(key \<mapsto> RString data)\<rparr>))"

definition redis_SAdd :: "(fault \<Rightarrow> bool) \<Rightarrow> string \<Rightarrow> string \<Rightarrow> RedisStore \<Rightarrow> redis_error option \<times> RedisStore" where
  "redis_SAdd F key member s =
     (if F CmdSAdd then (Some RedisDown, s)
      else case redis s key of
             None \<Rightarrow> (None, s\<lparr>redis := (redis s)(key \<mapsto> RSet {member})\<rparr>)
           | Some (RSet S) \<Rightarrow> (None, s\<lparr>redis := (redis s)(key \<mapsto> RSet (insert member S))\<rparr>)
           | Some (RString _) \<Rightarrow> (Some WrongType, s))"

definition redis_SIsMember :: "(fault \<Rightarrow> bool) \<Rightarrow> string \<Rightarrow> string \<Rightarrow> RedisStore \<Rightarrow> redis_error + bool" where
  "redis_SIsMember F key member s =
     (if F CmdSIsMember then Inl RedisDown
      else case redis s key of
             None \<Rightarrow> Inr False
           | Some (RSet S) \<Rightarrow> Inr (member \<in> S)
           | Some (RString _) \<Rightarrow> Inl WrongType)"

definition redis_Get :: "(fault \<Rightarrow> bool) \<Rightarrow> string \<Rightarrow> RedisStore \<Rightarrow> redis_error + bytes" where
  "redis_Get F key s =
     (if F CmdGet then Inl RedisDown
      else case redis s key of
             None \<Rightarrow> Inl RedisNil
           | Some (RString data) \<Rightarrow> Inr data
           | Some (RSet _) \<Rightarrow> Inl WrongType)"

definition redis_Del :: "(fault \<Rightarrow> bool) \<Rightarrow> string \<Rightarrow> RedisStore \<Rightarrow> redis_error option \<times> RedisStore" where
  "redis_Del F key s =
     (if F CmdDel then (Some RedisDown, s)
      else (None, s\<lparr>redis := (redis s)(key := None)\<rparr>))"

definition redis_SRem :: "(fault \<Rightarrow> bool) \<Rightarrow> string \<Rightarrow> string \<Rightarrow> RedisStore \<Rightarrow> redis_error option \<times> RedisStore" where
  "redis_SRem F key member s =
     (if F CmdSRem then (Some RedisDown, s)
      else case redis s key of
             None \<Rightarrow> (None, s)
           | Some (RSet S) \<Rightarrow>
               (None, s\<lparr>redis := (redis s)(key := (if S - {member} = {} then None
                                                       else Some (RSet (S - {member}))))\<rparr>)
           | Some (RString _) \<Rightarrow> (Some WrongType, s))"

definition redis_Publish :: "(fault \<Rightarrow> bool) \<Rightarrow> payload \<Rightarrow> RedisStore \<Rightarrow> redis_error option \<times> RedisStore" where
  "redis_Publish F p s =
     (if F CmdPublish then (Some RedisDown, s)
      else (None, s\<lparr>pubsub := pubsub s @ [p]\<rparr>))"

definition json_Unmarshal_Meta :: "bytes \<Rightarrow> Meta option" where
  "json_Unmarshal_Meta data = (case data of MetaJSON m \<Rightarrow> Some m | RawBytes _ \<Rightarrow> None)"

text \<open>\<open>make(chan *Message, n)\<close>: a new channel at the next free address.\<close>

definition make_chan :: "nat \<Rightarrow> RedisStore \<Rightarrow> nat \<times> RedisStore" where
  "make_chan n s =
     (nxt s, s\<lparr>chans := (chans s)(nxt s \<mapsto> \<lparr>buf = [], cap = n, closed = False\<rparr>),
               nxt := Suc (nxt s)\<rparr>)"

definition zap :: "level \<Rightarrow> string \<Rightarrow> field list \<Rightarrow> RedisStore \<Rightarrow> RedisStore" where
  "zap l m fs s = s\<lparr>logger := logger s @ [\<lparr>lvl = l, msg = m, flds = fs\<rparr>]\<rparr>"

subsection \<open>The store's operations\<close>

definition publishUpdate :: "(fault \<Rightarrow> bool) \<Rightarrow> string \<Rightarrow> Meta \<Rightarrow> Message option \<Rightarrow> RedisStore \<Rightarrow> error option \<times> RedisStore" where
  "publishUpdate F action m msg' s =
     (if F MarshalUpdate then (Some (Errorf ''failed to marshal session update''), s)
      else case redis_Publish F (UpdateJSON \<lparr>Action = action, UMeta = Some m, UMessage = msg'\<rparr>) s of
             (Some e, s') \<Rightarrow> (Some (RedisErr e), s')
           | (None, s') \<Rightarrow> (None, s'))"

definition Register :: "(fault \<Rightarrow> bool) \<Rightarrow> Meta \<Rightarrow> RedisStore \<Rightarrow> (error + RedisConnection) \<times> RedisStore" where
  "Register F m s =
     (if F MarshalMeta then (Inl (Errorf ''failed to marshal session metadata''), s)
      else case redis_Set F (prefix @ ID m) (MetaJSON m) s of
        (Some e, s1) \<Rightarrow> (Inl (Errorf ''failed to store session metadata in Redis''), s1)
      | (None, s1) \<Rightarrow>
         (case redis_SAdd F (prefix @ ''ids'') (ID m) s1 of
            (Some e, s2) \<Rightarrow> (Inl (Errorf ''failed to add session ID to list''), s2)
          | (None, s2) \<Rightarrow>
             (case make_chan 100 s2 of (q, s3) \<Rightarrow>
                let conn = \<lparr>meta = m, queue = q\<rparr>;
                    s4 = s3\<lparr>connections := (connections s3)(ID m \<mapsto> conn)\<rparr>
                in (case publishUpdate F ''create'' m None s4 of
                      (Some e, s5) \<Rightarrow> (Inl (Errorf ''failed to publish session creation''), s5)
                    | (None, s5) \<Rightarrow> (Inr conn, s5)))))"

definition Get :: "(fault \<Rightarrow> bool) \<Rightarrow> string \<Rightarrow> RedisStore \<Rightarrow> (error + RedisConnection) \<times> RedisStore" where
  "Get F sid s =
     (case redis_SIsMember F (prefix @ ''ids'') sid s of
        Inl e \<Rightarrow> (Inl (Errorf ''failed to check session ID''), s)
      | Inr exists \<Rightarrow>
         (if \<not> exists then (Inl ErrSessionNotFound, s)
          else (case redis_Get F (prefix @ sid) s of
                  Inl e \<Rightarrow> (if e = RedisNil then (Inl ErrSessionNotFound, s)
                            else (Inl (Errorf ''failed to get session metadata from Redis''), s))
                | Inr data \<Rightarrow>
                   (case json_Unmarshal_Meta data of
                      None \<Rightarrow> (Inl (Errorf ''failed to unmarshal session metadata''), s)
                    | Some m \<Rightarrow>
                       (case make_chan 100 s of
                          (q, s1) \<Rightarrow> (Inr \<lparr>meta = m, queue = q\<rparr>, s1))))))"

definition Unregister :: "(fault \<Rightarrow> bool) \<Rightarrow> string \<Rightarrow> RedisStore \<Rightarrow> error option \<times> RedisStore" where
  "Unregister F sid s =
     (let s1 = s\<lparr>connections := (connections s)(sid := None)\<rparr>
      in case redis_SIsMember F (prefix @ ''ids'') sid s1 of
           Inl e \<Rightarrow> (Some (Errorf ''failed to check session ID''), s1)
         | Inr exists \<Rightarrow>
            (if \<not> exists then (Some ErrSessionNotFound, s1)
             else (case redis_Del F (prefix @ sid) s1 of
                     (Some e, s2) \<Rightarrow>
                       (Some (Errorf ''failed to delete session metadata from Redis''), s2)
                   | (None, s2) \<Rightarrow>
                      (case redis_SRem F (prefix @ ''ids'') sid s2 of
                         (Some e, s3) \<Rightarrow>
                           (Some (Errorf ''failed to remove session ID from list''), s3)
                       | (None, s3) \<Rightarrow>
                           publishUpdate F ''delete''
                             \<lparr>ID = sid, CreatedAt = 0, Prefix = [], Type = []\<rparr> None s3))))"

text \<open>\<open>RedisConnection.Send\<close>, \<open>.Close\<close>, \<open>.EventQueue\<close> and \<open>.Meta\<close>.\<close>

definition Send :: "(fault \<Rightarrow> bool) \<Rightarrow> RedisConnection \<Rightarrow> Message option \<Rightarrow> RedisStore \<Rightarrow> error option \<times> RedisStore" where
  "Send F c msg' s = publishUpdate F ''event'' (meta c) msg' s"

definition Close :: "(fault \<Rightarrow> bool) \<Rightarrow> RedisConnection \<Rightarrow> RedisStore \<Rightarrow> error option \<times> RedisStore" where
  "Close F c s = Unregister F (ID (meta c)) s"

definition EventQueue :: "RedisConnection \<Rightarrow> nat" where
  "EventQueue c = queue c"

text \<open>
  \<open>NewRedisStore\<close>: the Redis server holds whatever it holds (\<open>r\<close>); the store starts with
  no connection and a subscription on which nothing has arrived yet.
\<close>

definition NewRedisStore :: "bool \<Rightarrow> (string \<rightharpoonup> rvalue) \<Rightarrow> error + RedisStore" where
  "NewRedisStore ping_fails r =
     (if ping_fails then Inl (Errorf ''failed to connect to Redis'')
      else Inr \<lparr>redis = r, pubsub = [], connections = Map.empty, chans = Map.empty,
                 nxt = 0, logger = []\<rparr>)"

subsection \<open>The subscriber\<close>

text \<open>
  The non-blocking send of \<open>select { case q <- v: ... default: ... }\<close>: \<open>Inr (Some s')\<close> when
  the send went through, \<open>Inr None\<close> when the channel is not ready (its buffer is full, or
  there is no channel at the address, the nil channel) and the \<open>default\<close> branch runs,
  \<open>Inl ()\<close> for the panic of a send on a closed channel.
\<close>

definition try_send :: "nat \<Rightarrow> Message option \<Rightarrow> RedisStore \<Rightarrow> unit + RedisStore option" where
  "try_send q v s =
     (case chans s q of
        None \<Rightarrow> Inr None
      | Some ch \<Rightarrow>
          if closed ch then Inl ()
          else if length (buf ch) < cap ch
               then Inr (Some (s\<lparr>chans := (chans s)(q \<mapsto> ch\<lparr>buf := buf ch @ [v]\<rparr>)\<rparr>))
               else Inr None)"

text \<open>
  One turn of the loop of \<open>handleUpdates\<close> on one payload of the subscription. \<open>None\<close> is a
  panic: \<open>update.Meta.ID\<close> or \<open>update.Message.Event\<close> read through a nil pointer, or a
  send on a closed channel; it ends the process.
\<close>

definition handleUpdate :: "payload \<Rightarrow> RedisStore \<Rightarrow> RedisStore option" where
  "handleUpdate p s =
     (case p of
        BadPayload raw \<Rightarrow>
          Some (zap ErrorLevel ''failed to unmarshal session update''
                  [Error, String ''payload'' raw] s)
      | UpdateJSON u \<Rightarrow>
          (if Action u = ''create'' \<or> Action u = ''update'' then
             (case UMeta u of
                None \<Rightarrow> None
              | Some m \<Rightarrow>
                  Some (zap DebugLevel ''received session update''
                          [String ''action'' (Action u), String ''id'' (ID m)] s))
           else if Action u = ''delete'' then
             (case UMeta u of
                None \<Rightarrow> None
              | Some m \<Rightarrow>
                  Some (zap DebugLevel ''received session delete'' [String ''id'' (ID m)] s))
           else if Action u = ''event'' then
             (case UMeta u of
                None \<Rightarrow> None
              | Some m \<Rightarrow>
                  (case connections s (ID m) of
                     Some conn \<Rightarrow>
                       (case try_send (queue conn) (UMessage u) s of
                          Inl _ \<Rightarrow> None
                        | Inr (Some s') \<Rightarrow>
                            (case UMessage u of
                               None \<Rightarrow> None
                             | Some e \<Rightarrow>
                                 Some (zap InfoLevel ''sent message to connection queue''
                                         [String ''id'' (ID m), String ''event'' (Event e)] s'))
                        | Inr None \<Rightarrow>
                            (case UMessage u of
                               None \<Rightarrow> None
                             | Some e \<Rightarrow>
                                 Some (zap WarnLevel ''connection queue is full, dropping message''
                                         [String ''id'' (ID m), String ''event'' (Event e)] s)))
                   | None \<Rightarrow>
                       (case UMessage u of
                          None \<Rightarrow> None
                        | Some e \<Rightarrow>
                            Some (zap WarnLevel ''received event for non-existent connection''
                                    [String ''id'' (ID m), String ''event'' (Event e)] s))))
           else Some s))"

text \<open>\<open>handleUpdates\<close> on the payloads that arrive, in order.\<close>

fun handleUpdates :: "payload list \<Rightarrow> RedisStore \<Rightarrow> RedisStore option" where
  "handleUpdates [] s = Some s"
| "handleUpdates (p # ps) s =
     (case handleUpdate p s of None \<Rightarrow> None | Some s' \<Rightarrow> handleUpdates ps s')"

subsection \<open>The store over time\<close>

text \<open>
  What happens to one replica's store, one atomic step at a time: a call of one of its
  operations (by any request handler, with any outcome), the subscriber taking the next
  payload of the subscription, a payload that the subscription loses, a reader taking the
  next message of a channel, and the world outside this process (other replicas, other
  clients of the Redis server) changing the keyspace and publishing to the topic.
\<close>

inductive step :: "RedisStore \<Rightarrow> RedisStore \<Rightarrow> bool" where
  step_Register: "step s (snd (Register F m s))"
| step_Get: "step s (snd (Get F sid s))"
| step_Unregister: "step s (snd (Unregister F sid s))"
| step_Send: "step s (snd (Send F c v s))"
| step_deliver: "pubsub s = p # ps \<Longrightarrow> handleUpdate p (s\<lparr>pubsub := ps\<rparr>) = Some s' \<Longrightarrow> step s s'"
| step_receive: "chans s a = Some ch \<Longrightarrow> buf ch = v # vs \<Longrightarrow>
     step s (s\<lparr>chans := (chans s)(a \<mapsto> ch\<lparr>buf := vs\<rparr>)\<rparr>)"
| step_lost: "pubsub s = p # ps \<Longrightarrow> step s (s\<lparr>pubsub := ps\<rparr>)"
| step_outside: "step s (s\<lparr>redis := r, pubsub := pubsub s @ ps\<rparr>)"

inductive reachable :: "RedisStore \<Rightarrow> bool" where
  reachable_init: "NewRedisStore False r = Inr s \<Longrightarrow> reachable s"
| reachable_step: "reachable s \<Longrightarrow> step s s' \<Longrightarrow> reachable s'"

text \<open>
  The invariant of the heap of channels: the queue of every connection of the map is a
  channel of the heap, and every channel lies below the next free address, has capacity
  100, is open and holds no more than its capacity.
\<close>

definition heap_ok :: "RedisStore \<Rightarrow> bool" where
  "heap_ok s \<longleftrightarrow>
     (\<forall>i c. connections s i = Some c \<longrightarrow> chans s (queue c) \<noteq> None) \<and>
     (\<forall>a ch. chans s a = Some ch \<longrightarrow>
        a < nxt s \<and> cap ch = 100 \<and> length (buf ch) \<le> 100 \<and> \<not> closed ch)"

text \<open>
  A channel address is detached when no connection of the map has it as its queue and the
  channel there is empty.
\<close>

definition detached :: "nat \<Rightarrow> RedisStore \<Rightarrow> bool" where
  "detached a s \<longleftrightarrow>
     heap_ok s \<and> (\<forall>i c. connections s i = Some c \<longrightarrow> queue c \<noteq> a) \<and>
     (\<exists>ch. chans s a = Some ch \<and> buf ch = [])"

text \<open>The number of warnings in the log.\<close>

definition warnings :: "RedisStore \<Rightarrow> nat" where
  "warnings s = length (filter (\<lambda>l. lvl l = WarnLevel) (logger s))"


section \<open>The streaming plane and the dispatcher (internal/core/streamable.go)\<close>

subsection \<open>What the handlers use from outside this development\<close>

text \<open>
  The session store behind \<open>s.sessions\<close> is the interface \<open>session.Store\<close>; a handler sees
  the operations below and nothing of the implementation. \<open>RedisStore_impl\<close> is the store
  of the first section behind that interface.
\<close>

record ('st, 'c) Store =
  Store_Register :: "Meta \<Rightarrow> 'st \<Rightarrow> (error + 'c) \<times> 'st"
  Store_Get :: "string \<Rightarrow> 'st \<Rightarrow> (error + 'c) \<times> 'st"
  Store_Unregister :: "string \<Rightarrow> 'st \<Rightarrow> error option \<times> 'st"
  Conn_Meta :: "'c \<Rightarrow> Meta"

definition RedisStore_impl :: "(fault \<Rightarrow> bool) \<Rightarrow> (RedisStore, RedisConnection) Store" where
  "RedisStore_impl F =
     \<lparr>Store_Register = Register F, Store_Get = Get F, Store_Unregister = Unregister F,
      Conn_Meta = meta\<rparr>"

text \<open>
  The JSON-RPC request as \<open>ShouldBindJSON\<close> decodes it; \<open>Params\<close> stays raw
  (\<open>json.RawMessage\<close>). Values of type \<open>any\<close> and raw JSON are opaque strings.
\<close>

record JSONRPCRequest =
  Id :: "string option"
  Method :: string
  Params :: string

record CallToolParams =
  Params_Name :: string
  Arguments :: string

type_synonym args = "(string \<times> string) list"

record Request =
  Request_Method :: string
  URL_Path :: string
  Request_Header :: "string \<rightharpoonup> string"
  Body :: string

record ToolConfig =
  Tool_Name :: string
  Tool_Method :: string

record ToolSchema =
  Schema_Name :: string
  Schema_Description :: string

record ServerConfig =
  Server_Name :: string
  AllowedTools :: "string list"
  Config :: "(string \<times> string) list"

text \<open>
  The decoders of \<open>encoding/json\<close> and gin, and the protocol version constant of
  \<open>pkg/mcp\<close>, are parameters: a failed \<open>json.Unmarshal\<close> gives the text of its error.
\<close>

record mcp_pkg =
  LatestProtocolVersion :: string
  ShouldBindJSON :: "string \<Rightarrow> JSONRPCRequest option"
  Unmarshal_InitializeRequestParams :: "string \<Rightarrow> string option"
  Unmarshal_CallToolParams :: "string \<Rightarrow> string + CallToolParams"
  Unmarshal_Arguments :: "string \<Rightarrow> args option"

text \<open>
  The fields of \<open>Server\<close> that the handlers read. \<open>executeTool\<close> is a method of the server
  that is not in this development: it gives the text of the result or of the error.
\<close>

record ('st, 'c) Server =
  sessions :: "('st, 'c) Store"
  toolMap :: "string \<rightharpoonup> ToolConfig"
  prefixToTools :: "string \<rightharpoonup> ToolSchema list"
  prefixToServerConfig :: "string \<rightharpoonup> ServerConfig"
  executeTool :: "ToolConfig \<Rightarrow> args \<Rightarrow> Request \<Rightarrow> (string \<times> string) list \<Rightarrow> string + string"

datatype ErrorCode =
  ErrorCodeParseError | ErrorCodeInvalidRequest | ErrorCodeMethodNotFound
  | ErrorCodeInvalidParams | ErrorCodeInternalError | ErrorCodeConnectionClosed
  | ErrorCodeRequestTimeout

text \<open>
  Modelled from the spec: the error code constants of \<open>pkg/mcp\<close> are missing from this
  development. Section 6 of the specification gives the five JSON-RPC codes verbatim and
  no number for the two domain codes.
\<close>

fun jsonrpc_code :: "ErrorCode \<Rightarrow> int option" where
  "jsonrpc_code ErrorCodeParseError = Some (- 32700)"
| "jsonrpc_code ErrorCodeInvalidRequest = Some (- 32600)"
| "jsonrpc_code ErrorCodeMethodNotFound = Some (- 32601)"
| "jsonrpc_code ErrorCodeInvalidParams = Some (- 32602)"
| "jsonrpc_code ErrorCodeInternalError = Some (- 32603)"
| "jsonrpc_code ErrorCodeConnectionClosed = None"
| "jsonrpc_code ErrorCodeRequestTimeout = None"

text \<open>
  Modelled from the spec: the method names of \<open>pkg/mcp\<close> are missing from this development;
  they are the canonical method set of section 3. \<open>Accepted\<close> is the body sent with HTTP
  202, empty by section 4.5.
\<close>

definition Initialize :: string where
  "Initialize = ''initialize''"

definition NotificationInitialized :: string where
  "NotificationInitialized = ''notifications/initialized''"

definition ToolsList :: string where
  "ToolsList = ''tools/list''"

definition ToolsCall :: string where
  "ToolsCall = ''tools/call''"

definition Accepted :: string where
  "Accepted = []"

text \<open>The status codes and method names of \<open>net/http\<close>.\<close>

definition StatusOK :: nat where "StatusOK = 200"
definition StatusAccepted :: nat where "StatusAccepted = 202"
definition StatusBadRequest :: nat where "StatusBadRequest = 400"
definition StatusNotFound :: nat where "StatusNotFound = 404"
definition StatusMethodNotAllowed :: nat where "StatusMethodNotAllowed = 405"
definition StatusNotAcceptable :: nat where "StatusNotAcceptable = 406"
definition StatusInternalServerError :: nat where "StatusInternalServerError = 500"

text \<open>\<open>strings.Contains\<close> and \<open>strings.TrimSuffix\<close>.\<close>

fun HasPrefix :: "string \<Rightarrow> string \<Rightarrow> bool" where
  "HasPrefix s [] = True"
| "HasPrefix [] (p # ps) = False"
| "HasPrefix (c # s) (p # ps) = (c = p \<and> HasPrefix s ps)"

fun Contains :: "string \<Rightarrow> string \<Rightarrow> bool" where
  "Contains [] sub = (sub = [])"
| "Contains (c # s) sub = (HasPrefix (c # s) sub \<or> Contains s sub)"


definition GetHeader :: "Request \<Rightarrow> string \<Rightarrow> string" where
  "GetHeader req k = (case Request_Header req k of None \<Rightarrow> [] | Some v \<Rightarrow> v)"

subsection \<open>The response\<close>

record ToolsCapabilitySchema =
  ListChanged :: bool

record ServerCapabilitiesSchema =
  Logging :: unit
  Tools :: ToolsCapabilitySchema

record ImplementationSchema =
  Name :: string
  Version :: string

record InitializedResult =
  ProtocolVersion :: string
  Capabilities :: ServerCapabilitiesSchema
  ServerInfo :: ImplementationSchema

record Content =
  Content_Type :: string
  Text :: string

datatype result =
  Initialized InitializedResult
  | ListToolsResult "ToolSchema list"
  | CallToolResult "Content list" bool

text \<open>
  What a handler does to the gin context, in order: \<open>Status\<close> is \<open>c.Status\<close>, \<open>Header\<close> is
  \<open>c.Header\<close> or \<open>c.Writer.Header().Set\<close>, \<open>GinString\<close> is \<open>c.String\<close>, \<open>Fprint\<close> is
  \<open>fmt.Fprint(c.Writer, _)\<close> of a string and \<open>FprintValue\<close> of a \<open>*Message\<close>, \<open>Flush\<close> is
  \<open>c.Writer.Flush\<close>. The three response helpers of the server are not part of this
  development; a call of one of them is recorded with its arguments: \<open>ProtocolError\<close> is
  \<open>s.sendProtocolError(c, id, code, message, status)\<close>, \<open>SuccessResponse\<close> is
  \<open>s.sendSuccessResponse(c, conn, req, result, flag)\<close> and \<open>ToolExecutionError\<close> is
  \<open>s.sendToolExecutionError(c, conn, req, err, flag)\<close>, the connection being recorded by its
  \<open>Meta()\<close> and the error by its text. What a helper then writes to the context is not
  part of the trace.
\<close>

datatype effect =
  Status nat
  | Header string string
  | GinString nat string
  | Fprint string
  | FprintValue Message
  | Flush
  | ProtocolError "string option" ErrorCode string nat
  | SuccessResponse Meta JSONRPCRequest result bool
  | ToolExecutionError Meta JSONRPCRequest string bool

datatype outcome = Returned | Blocked | Panicked

definition sendProtocolError :: "string option \<Rightarrow> ErrorCode \<Rightarrow> string \<Rightarrow> nat \<Rightarrow> effect list" where
  "sendProtocolError rid code message status = [ProtocolError rid code message status]"

definition sendSuccessResponse ::
  "('c \<Rightarrow> Meta) \<Rightarrow> 'c \<Rightarrow> JSONRPCRequest \<Rightarrow> result \<Rightarrow> bool \<Rightarrow> effect list" where
  "sendSuccessResponse Meta_of conn req res flag = [SuccessResponse (Meta_of conn) req res flag]"

definition sendToolExecutionError ::
  "('c \<Rightarrow> Meta) \<Rightarrow> 'c \<Rightarrow> JSONRPCRequest \<Rightarrow> string \<Rightarrow> bool \<Rightarrow> effect list" where
  "sendToolExecutionError Meta_of conn req err flag =
     [ToolExecutionError (Meta_of conn) req err flag]"

subsection \<open>handleMCPRequest\<close>

text \<open>The effects on the context and the error returned, which is nil on every path.\<close>

definition handleMCPRequest ::
  "('st, 'c) Server \<Rightarrow> mcp_pkg \<Rightarrow> Request \<Rightarrow> JSONRPCRequest \<Rightarrow> 'c \<Rightarrow> effect list \<times> string option" where
  "handleMCPRequest srv lib httpreq req conn =
     (if Method req = Initialize then
        (case Unmarshal_InitializeRequestParams lib (Params req) of
           Some err \<Rightarrow>
             (sendProtocolError (Id req) ErrorCodeInvalidParams
                (''invalid initialize parameters: '' @ err) StatusBadRequest, None)
         | None \<Rightarrow>
             (sendSuccessResponse (Conn_Meta (sessions srv)) conn req
                (Initialized
                   \<lparr>ProtocolVersion = LatestProtocolVersion lib,
                    Capabilities = \<lparr>Logging = (), Tools = \<lparr>ListChanged = True\<rparr>\<rparr>,
                    ServerInfo = \<lparr>Name = ''mcp-gateway'', Version = ''1.0.0''\<rparr>\<rparr>) False,
              None))
      else if Method req = NotificationInitialized then
        ([Header ''Content-Type'' ''application/json'', GinString StatusAccepted Accepted], None)
      else if Method req = ToolsList then
        (let tools = (case prefixToTools srv (Prefix (Conn_Meta (sessions srv) conn)) of
                        Some ts \<Rightarrow> ts | None \<Rightarrow> [])
         in (sendSuccessResponse (Conn_Meta (sessions srv)) conn req (ListToolsResult tools)
               False, None))
      else if Method req = ToolsCall then
        (case Unmarshal_CallToolParams lib (Params req) of
           Inl err \<Rightarrow>
             (sendProtocolError (Id req) ErrorCodeInvalidParams
                (''invalid tool call parameters: '' @ err) StatusBadRequest, None)
         | Inr params \<Rightarrow>
             (case toolMap srv (Params_Name params) of
                None \<Rightarrow>
                  (sendProtocolError (Id req) ErrorCodeMethodNotFound ''Tool not found''
                     StatusNotFound, None)
              | Some tool \<Rightarrow>
                  (case Unmarshal_Arguments lib (Arguments params) of
                     None \<Rightarrow>
                       (sendProtocolError (Id req) ErrorCodeInvalidParams
                          ''Invalid tool arguments'' StatusBadRequest, None)
                   | Some args \<Rightarrow>
                       (case prefixToServerConfig srv (Prefix (Conn_Meta (sessions srv) conn)) of
                          None \<Rightarrow>
                            (sendProtocolError (Id req) ErrorCodeInternalError
                               ''Server config not found'' StatusInternalServerError, None)
                        | Some serverCfg \<Rightarrow>
                            (case executeTool srv tool args httpreq (Config serverCfg) of
                               Inl err \<Rightarrow>
                                 (sendToolExecutionError (Conn_Meta (sessions srv)) conn req err
                                    False, None)
                             | Inr res \<Rightarrow>
                                 (sendSuccessResponse (Conn_Meta (sessions srv)) conn req
                                    (CallToolResult [\<lparr>Content_Type = ''text'', Text = res\<rparr>]
                                       False) False, None))))))
      else
        (sendProtocolError (Id req) ErrorCodeMethodNotFound ''Method not found'' StatusNotFound,
         None))"

subsection \<open>handleGet\<close>

text \<open>
  What the \<open>select\<close> of the drain loop yields, turn after turn: a pointer received from the
  event queue of the connection, the end of the request context, or the shutdown signal.
  When the list is used up nothing more ever becomes ready, and the loop stays blocked.
\<close>

datatype select = Recv "Message option" | CtxDone | ShutdownCh

fun drain :: "select list \<Rightarrow> effect list \<times> outcome" where
  "drain [] = ([], Blocked)"
| "drain (Recv None # rest) = ([], Panicked)"
| "drain (Recv (Some event) # rest) =
     (case drain rest of (ws, out) \<Rightarrow>
        ((if Event event = ''message''
          then [Fprint (''event: message\<newline>data: '' @ Data event @ ''\<newline>\<newline>'')]
          else [])
         @ [FprintValue event, Flush] @ ws, out))"
| "drain (CtxDone # rest) = ([], Returned)"
| "drain (ShutdownCh # rest) = ([], Returned)"

definition handleGet ::
  "('st, 'c) Server \<Rightarrow> Request \<Rightarrow> select list \<Rightarrow> 'st \<Rightarrow> (effect list \<times> outcome) \<times> 'st" where
  "handleGet srv req sel st =
     (let acceptHeader = GetHeader req ''Accept'' in
      if \<not> Contains acceptHeader ''text/event-stream'' then
        ((sendProtocolError None ErrorCodeInvalidRequest
            ''Not Acceptable: Client must accept text/event-stream'' StatusNotAcceptable,
          Returned), st)
      else
        (let sessionID = GetHeader req ''Mcp-Session-Id'';
             e1 = (if sessionID = [] then
                     sendProtocolError None ErrorCodeConnectionClosed
                       ''Bad Request: Mcp-Session-Id header is required'' StatusBadRequest
                   else [])
         in case Store_Get (sessions srv) sessionID st of
              (Inl err, st') \<Rightarrow>
                ((e1 @ sendProtocolError None ErrorCodeRequestTimeout ''Session not found''
                          StatusNotFound, Returned), st')
            | (Inr conn, st') \<Rightarrow>
                (case drain sel of (ws, out) \<Rightarrow>
                   ((e1 @ [Header ''Content-Type'' ''text/event-stream'',
                           Header ''Cache-Control'' ''no-cache, no-transform'',
                           Header ''Connection'' ''keep-alive'',
                           Header ''Mcp-Session-Id'' sessionID,
                           Flush] @ ws, out), st'))))"

subsection \<open>handleMCP\<close>



section \<open>The reload controller (cmd/mcp-gateway/main.go)\<close>

text \<open>
  The process runs or has exited with a status. The gateway process holds the
  \<open>core.Server\<close> as \<open>RegisterRoutes\<close> and \<open>UpdateConfig\<close> leave it, the configuration whose
  router the server in the variable \<open>httpServer\<close> serves, whether that server still
  listens, and the calls of the logger.
\<close>

datatype process = Running | Exited nat

record ('cfg, 'srv) gateway =
  process :: process
  core_Server :: 'srv
  httpServer :: 'cfg
  listening :: bool
  zap_log :: "log_entry list"

text \<open>
  What one reload meets outside \<open>handleReload\<close>: the result of \<open>store.List\<close>, the function
  \<open>helper.MergeConfigs\<close>, the two methods of the server with the state they leave it in, and
  whether \<open>Shutdown\<close> of the old server and \<open>ListenAndServe\<close> of the new one fail. An error is
  its text.
\<close>

record ('doc, 'cfg, 'srv) reload_env =
  store_List :: "string + 'doc list"
  MergeConfigs :: "'doc list \<Rightarrow> string + 'cfg"
  RegisterRoutes :: "'cfg \<Rightarrow> 'srv \<Rightarrow> string option \<times> 'srv"
  UpdateConfig :: "'cfg \<Rightarrow> 'srv \<Rightarrow> string option \<times> 'srv"
  Shutdown :: "string option"
  ListenAndServe :: "string option"

definition logger_call :: "level \<Rightarrow> string \<Rightarrow> field list \<Rightarrow> ('cfg, 'srv) gateway \<Rightarrow> ('cfg, 'srv) gateway" where
  "logger_call l m fs g = g\<lparr>zap_log := zap_log g @ [\<lparr>lvl = l, msg = m, flds = fs\<rparr>]\<rparr>"

text \<open>\<open>logger.Fatal\<close> of zap: the entry is written, then \<open>os.Exit(1)\<close> ends the process.\<close>

definition logger_Fatal :: "string \<Rightarrow> field list \<Rightarrow> ('cfg, 'srv) gateway \<Rightarrow> ('cfg, 'srv) gateway" where
  "logger_Fatal m fs g = (logger_call FatalLevel m fs g)\<lparr>process := Exited 1\<rparr>"

definition handleReload :: "('doc, 'cfg, 'srv) reload_env \<Rightarrow> ('cfg, 'srv) gateway \<Rightarrow> ('cfg, 'srv) gateway" where
  "handleReload env g =
     (let g0 = logger_call InfoLevel ''Reloading MCP configuration'' [] g in
      case store_List env of
        Inl err \<Rightarrow> logger_Fatal ''Failed to load MCP configurations'' [Error] g0
      | Inr mcpConfigs \<Rightarrow>
         (case MergeConfigs env mcpConfigs of
            Inl err \<Rightarrow> logger_Fatal ''failed to merge MCP configurations'' [Error] g0
          | Inr newMCPCfg \<Rightarrow>
             (case RegisterRoutes env newMCPCfg (core_Server g0) of
                (Some err, srv1) \<Rightarrow>
                  logger_call ErrorLevel ''failed to register new routes'' [Error]
                    (g0\<lparr>core_Server := srv1\<rparr>)
              | (None, srv1) \<Rightarrow>
                 (case UpdateConfig env newMCPCfg srv1 of
                    (Some err, srv2) \<Rightarrow>
                      logger_call ErrorLevel ''failed to update server configuration'' [Error]
                        (g0\<lparr>core_Server := srv2\<rparr>)
                  | (None, srv2) \<Rightarrow>
                     (case Shutdown env of
                        Some err \<Rightarrow>
                          logger_call ErrorLevel ''failed to shutdown old server'' [Error]
                            (g0\<lparr>core_Server := srv2, listening := False\<rparr>)
                      | None \<Rightarrow>
                         (case ListenAndServe env of
                            Some err \<Rightarrow>
                              logger_call ErrorLevel ''failed to start new server'' [Error]
                                (g0\<lparr>core_Server := srv2, httpServer := newMCPCfg,
                                    listening := False\<rparr>)
                          | None \<Rightarrow>
                              g0\<lparr>core_Server := srv2, httpServer := newMCPCfg,
                                 listening := True\<rparr>))))))"


subsection \<open>A concrete run\<close>

text \<open>
  A store on an empty Redis server, no command failing; one session \<open>s1\<close> registered
  under the prefix \<open>/\<close>; one event sent on its connection and delivered by the subscriber.
\<close>

definition no_fault :: "fault \<Rightarrow> bool" where
  "no_fault f = False"

definition publish_fails :: "fault \<Rightarrow> bool" where
  "publish_fails f = (f = CmdPublish)"

definition demo_meta :: Meta where
  "demo_meta = \<lparr>ID = ''s1'', CreatedAt = 0, Prefix = ''/'', Type = ''streamable''\<rparr>"

definition demo_msg :: Message where
  \<open>demo_msg = \<lparr>Event = ''message'', Data = ''{"k":1}''\<rparr>\<close>

definition demo_store0 :: RedisStore where
  "demo_store0 = \<lparr>redis = Map.empty, pubsub = [], connections = Map.empty, chans = Map.empty,
                   nxt = 0, logger = []\<rparr>"

definition demo_conn :: RedisConnection where
  "demo_conn = \<lparr>meta = demo_meta, queue = 0\<rparr>"

definition demo_store1 :: RedisStore where
  "demo_store1 = snd (Register no_fault demo_meta demo_store0)"

definition demo_store2 :: RedisStore where
  "demo_store2 = snd (Send no_fault demo_conn (Some demo_msg) demo_store1)"

definition demo_store3 :: RedisStore where
  "demo_store3 =
     (case handleUpdates (pubsub demo_store2) (demo_store2\<lparr>pubsub := []\<rparr>) of
        Some s \<Rightarrow> s | None \<Rightarrow> demo_store2)"

definition demo_log1 :: log_entry where
  "demo_log1 = \<lparr>lvl = DebugLevel, msg = ''received session update'',
                 flds = [String ''action'' ''create'', String ''id'' ''s1'']\<rparr>"

definition demo_log2 :: log_entry where
  "demo_log2 = \<lparr>lvl = InfoLevel, msg = ''sent message to connection queue'',
                 flds = [String ''id'' ''s1'', String ''event'' ''message'']\<rparr>"

text \<open>
  The same session looked up with \<open>Get\<close> after its registration, an event sent on the
  connection \<open>Get\<close> returned, and the subscriber run on what is pending.
\<close>

definition demo_got :: RedisConnection where
  "demo_got = \<lparr>meta = demo_meta, queue = 1\<rparr>"

definition demo_get1 :: RedisStore where
  "demo_get1 = snd (Get no_fault ''s1'' demo_store1)"

definition demo_get2 :: RedisStore where
  "demo_get2 = snd (Send no_fault demo_got (Some demo_msg) demo_get1)"

definition demo_get3 :: RedisStore where
  "demo_get3 =
     (case handleUpdates (pubsub demo_get2) (demo_get2\<lparr>pubsub := []\<rparr>) of
        Some s \<Rightarrow> s | None \<Rightarrow> demo_get2)"

text \<open>
  Overflow: after the registration of \<open>s1\<close>, 150 events for the session are published to
  the topic from outside, nothing reads the queue, and the subscriber runs on all that is
  pending.
\<close>

definition demo_event_payload :: payload where
  "demo_event_payload =
     UpdateJSON \<lparr>Action = ''event'', UMeta = Some demo_meta, UMessage = Some demo_msg\<rparr>"

definition demo_flood :: RedisStore where
  "demo_flood = demo_store1\<lparr>redis := redis demo_store1,
                            pubsub := pubsub demo_store1 @ replicate 150 demo_event_payload\<rparr>"

definition demo_flooded :: RedisStore where
  "demo_flooded =
     (case handleUpdates (pubsub demo_flood) (demo_flood\<lparr>pubsub := []\<rparr>) of
        Some s \<Rightarrow> s | None \<Rightarrow> demo_flood)"


subsection \<open>A concrete gateway\<close>

text \<open>
  One tool \<open>echo\<close> in the tool map; the prefix \<open>/a\<close> routes to a server that allows no tool,
  the prefix \<open>/b\<close> to a server that allows \<open>echo\<close>. The decoders stand for JSON decoding on
  the three bodies used: an initialize request, a call of \<open>echo\<close> and a call of \<open>missing\<close>.
\<close>

definition demo_lib :: mcp_pkg where
  "demo_lib =
     \<lparr>LatestProtocolVersion = ''LATEST'',
      ShouldBindJSON = (\<lambda>body.
         if body = ''init'' then Some \<lparr>Id = Some ''1'', Method = ''initialize'', Params = ''{}''\<rparr>
         else if body = ''call echo'' then Some \<lparr>Id = Some ''3'', Method = ''tools/call'', Params = ''echo''\<rparr>
         else if body = ''call missing'' then Some \<lparr>Id = Some ''4'', Method = ''tools/call'', Params = ''missing''\<rparr>
         else None),
      Unmarshal_InitializeRequestParams = (\<lambda>p. None),
      Unmarshal_CallToolParams = (\<lambda>p. Inr \<lparr>Params_Name = p, Arguments = ''{}''\<rparr>),
      Unmarshal_Arguments = (\<lambda>a. Some [])\<rparr>"

definition demo_cfg_a :: ServerConfig where
  "demo_cfg_a = \<lparr>Server_Name = ''a'', AllowedTools = [], Config = []\<rparr>"

definition demo_cfg_b :: ServerConfig where
  "demo_cfg_b = \<lparr>Server_Name = ''b'', AllowedTools = [''echo''], Config = []\<rparr>"

definition demo_srv :: "(RedisStore, RedisConnection) Server" where
  "demo_srv =
     \<lparr>sessions = RedisStore_impl no_fault,
      toolMap = [''echo'' \<mapsto> \<lparr>Tool_Name = ''echo'', Tool_Method = ''POST''\<rparr>],
      prefixToTools = [''/a'' \<mapsto> [],
                       ''/b'' \<mapsto> [\<lparr>Schema_Name = ''echo'', Schema_Description = ''echo''\<rparr>]],
      prefixToServerConfig = [''/a'' \<mapsto> demo_cfg_a, ''/b'' \<mapsto> demo_cfg_b],
      executeTool = (\<lambda>tool args req cfg. Inr ''hi'')\<rparr>"

definition demo_conn_a :: RedisConnection where
  "demo_conn_a =
     \<lparr>meta = \<lparr>ID = ''s1'', CreatedAt = 0, Prefix = ''/a'', Type = ''streamable''\<rparr>, queue = 0\<rparr>"

definition demo_post :: "string \<Rightarrow> string \<Rightarrow> Request" where
  "demo_post sid body =
     \<lparr>Request_Method = ''POST'', URL_Path = ''/a/mcp'',
      Request_Header = (if sid = [] then Map.empty else [''Mcp-Session-Id'' \<mapsto> sid]),
      Body = body\<rparr>"

definition demo_call_echo :: JSONRPCRequest where
  "demo_call_echo = \<lparr>Id = Some ''3'', Method = ''tools/call'', Params = ''echo''\<rparr>"

definition demo_call_missing :: JSONRPCRequest where
  "demo_call_missing = \<lparr>Id = Some ''4'', Method = ''tools/call'', Params = ''missing''\<rparr>"

definition demo_get_request :: Request where
  "demo_get_request =
     \<lparr>Request_Method = ''GET'', URL_Path = ''/a/mcp'',
      Request_Header = [''Accept'' \<mapsto> ''text/event-stream''], Body = []\<rparr>"


text \<open>
  A reload on which \<open>store.List\<close> returns two documents and \<open>MergeConfigs\<close> rejects them,
  in a gateway that serves configuration 0.
\<close>

definition demo_reload :: "(string, nat, nat) reload_env" where
  "demo_reload =
     \<lparr>store_List = Inr [''doc1'', ''doc2''],
      MergeConfigs = (\<lambda>docs. Inl ''duplicate prefix''),
      RegisterRoutes = (\<lambda>cfg srv. (None, cfg)),
      UpdateConfig = (\<lambda>cfg srv. (None, cfg)),
      Shutdown = None,
      ListenAndServe = None\<rparr>"

definition demo_reload_routes :: "(string, nat, nat) reload_env" where
  "demo_reload_routes =
     demo_reload\<lparr>MergeConfigs := (\<lambda>docs. Inr 1),
                 RegisterRoutes := (\<lambda>cfg srv. (Some ''bad route'', srv))\<rparr>"

definition demo_gateway :: "(nat, nat) gateway" where
  "demo_gateway =
     \<lparr>process = Running, core_Server = 0, httpServer = 0, listening = True, zap_log = []\<rparr>"

section \<open>Properties of the session store\<close>

subsection \<open>The heap invariant\<close>

lemmas redis_defs = redis_Set_def redis_SAdd_def redis_SIsMember_def redis_Get_def redis_Del_def
  redis_SRem_def redis_Publish_def

lemma publishUpdate_frame:
  "publishUpdate F a m v s = (r, s') \<Longrightarrow>
     connections s' = connections s \<and> chans s' = chans s \<and> nxt s' = nxt s \<and>
     redis s' = redis s \<and> logger s' = logger s"
  by (auto simp: publishUpdate_def redis_Publish_def split: if_splits)

lemma heap_ok_publishUpdate:
  "heap_ok s \<Longrightarrow> heap_ok (snd (publishUpdate F a m v s))"
  by (auto simp: publishUpdate_def redis_Publish_def heap_ok_def split: if_splits)

lemma heap_ok_make_chan: 
  "heap_ok s \<Longrightarrow> heap_ok (snd (make_chan 100 s))"
  by (auto simp: make_chan_def heap_ok_def less_Suc_eq)

lemma heap_ok_Register: "heap_ok s \<Longrightarrow> heap_ok (snd (Register F m s))"
  by (auto simp: Register_def redis_Set_def redis_SAdd_def make_chan_def publishUpdate_def redis_Publish_def heap_ok_def less_Suc_eq Let_def
      split: if_splits option.splits rvalue.splits prod.splits)

lemma heap_ok_Get: "heap_ok s \<Longrightarrow> heap_ok (snd (Get F sid s))"
  by (auto simp: Get_def redis_SIsMember_def redis_Get_def make_chan_def heap_ok_def less_Suc_eq json_Unmarshal_Meta_def
      split: if_splits option.splits rvalue.splits prod.splits sum.splits bytes.splits)

lemma heap_ok_Unregister: "heap_ok s \<Longrightarrow> heap_ok (snd (Unregister F sid s))"
  by (auto simp: Unregister_def redis_defs publishUpdate_def heap_ok_def Let_def
      split: if_splits option.splits rvalue.splits prod.splits sum.splits)

lemma heap_ok_Send: "heap_ok s \<Longrightarrow> heap_ok (snd (Send F c v s))"
  by (simp add: Send_def heap_ok_publishUpdate)

lemma heap_ok_frame:
  "connections s' = connections s \<Longrightarrow> chans s' = chans s \<Longrightarrow> nxt s' = nxt s \<Longrightarrow>
     heap_ok s' = heap_ok s"
  by (simp add: heap_ok_def)

lemma heap_ok_zap: "heap_ok (zap l m fs s) = heap_ok s"
  by (rule heap_ok_frame) (simp_all add: zap_def)

lemma heap_ok_try_send: "heap_ok s \<Longrightarrow> try_send q v s = Inr (Some s') \<Longrightarrow> heap_ok s'"
proof -
  assume ok: "heap_ok s" and snd: "try_send q v s = Inr (Some s')"
  from snd obtain ch where ch: "chans s q = Some ch" "length (buf ch) < cap ch" "\<not> closed ch"
    and s': "s' = s\<lparr>chans := (chans s)(q \<mapsto> ch\<lparr>buf := buf ch @ [v]\<rparr>)\<rparr>"
    by (auto simp: try_send_def split: option.splits if_splits)
  from ok ch have "cap ch = 100" by (simp add: heap_ok_def)
  with ok ch show "heap_ok s'" unfolding s' heap_ok_def by auto
qed

lemma heap_ok_handleUpdate: "heap_ok s \<Longrightarrow> handleUpdate p s = Some s' \<Longrightarrow> heap_ok s'"
  unfolding handleUpdate_def
  by (auto simp: heap_ok_zap dest: heap_ok_try_send
      split: if_splits option.splits payload.splits sum.splits)

lemma heap_ok_step: "step s s' \<Longrightarrow> heap_ok s \<Longrightarrow> heap_ok s'"
proof (induction rule: step.induct)
  case (step_deliver s p ps s')
  have "heap_ok (s\<lparr>pubsub := ps\<rparr>) = heap_ok s" by (rule heap_ok_frame) simp_all
  with step_deliver.prems have "heap_ok (s\<lparr>pubsub := ps\<rparr>)" by simp
  then show ?case using step_deliver.hyps(2) by (rule heap_ok_handleUpdate)
next
  case (step_receive s a ch v vs)
  from step_receive have "cap ch = 100 \<and> length (buf ch) \<le> 100 \<and> \<not> closed ch \<and> a < nxt s"
    unfolding heap_ok_def by blast
  with step_receive show ?case unfolding heap_ok_def by auto
next
  case step_lost
  then show ?case by (simp add: heap_ok_def)
next
  case step_outside
  then show ?case by (simp add: heap_ok_def)
qed (simp_all add: heap_ok_Register heap_ok_Get heap_ok_Unregister heap_ok_Send)

lemma heap_ok_reachable: "reachable s \<Longrightarrow> heap_ok s"
proof (induction rule: reachable.induct)
  case (reachable_init r s)
  then show ?case by (auto simp: NewRedisStore_def heap_ok_def)
next
  case (reachable_step s s')
  then show ?case by (simp add: heap_ok_step)
qed

lemma heap_ok_fresh: "heap_ok s \<Longrightarrow> chans s (nxt s) = None"
  unfolding heap_ok_def by (cases "chans s (nxt s)") auto

lemma heap_ok_conn_below: "heap_ok s \<Longrightarrow> connections s i = Some c \<Longrightarrow> queue c < nxt s"
  unfolding heap_ok_def by (cases "chans s (queue c)") auto

subsection \<open>The concrete run, computed\<close>

lemmas op_defs = Register_def Get_def Unregister_def Send_def publishUpdate_def make_chan_def
  json_Unmarshal_Meta_def redis_defs

lemmas demo_defs = demo_store0_def demo_store1_def demo_store2_def demo_store3_def demo_meta_def
  demo_msg_def demo_conn_def no_fault_def publish_fails_def prefix_def

lemma demo_store1_eq:
  "demo_store1 =
     \<lparr>redis = [''session:s1'' \<mapsto> RString (MetaJSON demo_meta), ''session:ids'' \<mapsto> RSet {''s1''}],
      pubsub = [UpdateJSON \<lparr>Action = ''create'', UMeta = Some demo_meta, UMessage = None\<rparr>],
      connections = [''s1'' \<mapsto> demo_conn],
      chans = [0 \<mapsto> \<lparr>buf = [], cap = 100, closed = False\<rparr>],
      nxt = 1, logger = []\<rparr>"
  by (simp add: op_defs demo_defs Let_def)



lemma reachable_demo_store0: "reachable demo_store0"
  by (rule reachable_init [of Map.empty]) (simp add: NewRedisStore_def demo_store0_def)

lemma reachable_demo_store1: "reachable demo_store1"
  unfolding demo_store1_def
  by (rule reachable_step [OF reachable_demo_store0 step_Register])



lemma demo_Get:
  "Get no_fault ''s1'' demo_store1 =
     (Inr demo_got,
      demo_store1\<lparr>chans := [0 \<mapsto> \<lparr>buf = [], cap = 100, closed = False\<rparr>,
                              1 \<mapsto> \<lparr>buf = [], cap = 100, closed = False\<rparr>],
                   nxt := 2\<rparr>)"
  by (simp add: demo_store1_eq op_defs no_fault_def prefix_def demo_got_def)

lemma demo_get1_eq:
  "demo_get1 =
     \<lparr>redis = [''session:s1'' \<mapsto> RString (MetaJSON demo_meta), ''session:ids'' \<mapsto> RSet {''s1''}],
      pubsub = [UpdateJSON \<lparr>Action = ''create'', UMeta = Some demo_meta, UMessage = None\<rparr>],
      connections = [''s1'' \<mapsto> demo_conn],
      chans = [0 \<mapsto> \<lparr>buf = [], cap = 100, closed = False\<rparr>,
               1 \<mapsto> \<lparr>buf = [], cap = 100, closed = False\<rparr>],
      nxt = 2, logger = []\<rparr>"
  unfolding demo_get1_def demo_Get by (simp add: demo_store1_eq)

lemma demo_get2_eq:
  "demo_get2 = demo_get1\<lparr>pubsub :=
      [UpdateJSON \<lparr>Action = ''create'', UMeta = Some demo_meta, UMessage = None\<rparr>,
       UpdateJSON \<lparr>Action = ''event'', UMeta = Some demo_meta, UMessage = Some demo_msg\<rparr>]\<rparr>"
  by (simp add: demo_get2_def demo_get1_eq op_defs demo_got_def no_fault_def)

lemma demo_get3_eq:
  "demo_get3 = demo_get1\<lparr>pubsub := [],
      chans := [0 \<mapsto> \<lparr>buf = [Some demo_msg], cap = 100, closed = False\<rparr>,
                1 \<mapsto> \<lparr>buf = [], cap = 100, closed = False\<rparr>],
      logger := [demo_log1, demo_log2]\<rparr>"
  by (simp add: demo_get3_def demo_get2_eq demo_get1_eq
        handleUpdate_def try_send_def zap_def demo_conn_def demo_meta_def demo_msg_def
        demo_log1_def demo_log2_def fun_upd_twist)

lemma demo_get_steps: "step\<^sup>*\<^sup>* demo_get1 demo_get3"
proof -
  let ?p1 = "UpdateJSON \<lparr>Action = ''create'', UMeta = Some demo_meta, UMessage = None\<rparr>"
  let ?p2 = "UpdateJSON \<lparr>Action = ''event'', UMeta = Some demo_meta, UMessage = Some demo_msg\<rparr>"
  let ?mid = "demo_get1\<lparr>pubsub := [?p2], logger := [demo_log1]\<rparr>"
  have a: "step demo_get1 demo_get2"
    unfolding demo_get2_def by (rule step_Send)
  have b: "step demo_get2 ?mid"
    by (rule step_deliver [of _ ?p1 "[?p2]"])
       (simp_all add: demo_get2_eq demo_get1_eq handleUpdate_def
          zap_def demo_meta_def demo_log1_def)
  have c: "step ?mid demo_get3"
    by (rule step_deliver [of _ ?p2 "[]"])
       (simp_all add: demo_get3_eq demo_get1_eq handleUpdate_def
          try_send_def zap_def demo_conn_def demo_meta_def demo_msg_def demo_log1_def
          demo_log2_def fun_upd_twist)
  from a b c show ?thesis by (meson rtranclp.rtrancl_into_rtrancl rtranclp.rtrancl_refl)
qed

subsection \<open>Register\<close>






text \<open>
  C10: Register does not undo what it did when its last step fails. When the metadata was
  stored and the id was added to the id set, and then the publication of the \<open>create\<close>
  update fails (its encoding or the \<open>PUBLISH\<close> command), Register returns an error, and the
  metadata key, the id in the id set and the entry of the connections map are all there in
  the state it leaves; a Get of the id, its own commands succeeding, returns a connection
  for the meta.
\<close>

theorem Register_publish_failure_keeps_session:
  assumes "\<not> F MarshalMeta"
    and "redis_Set F (prefix @ ID m) (MetaJSON m) s = (None, s1)"
    and "redis_SAdd F (prefix @ ''ids'') (ID m) s1 = (None, s2)"
    and "F MarshalUpdate \<or> F CmdPublish"
  shows "\<exists>s'. Register F m s = (Inl (Errorf ''failed to publish session creation''), s') \<and>
           redis s' (prefix @ ID m) = Some (RString (MetaJSON m)) \<and>
           (\<exists>S. redis s' (prefix @ ''ids'') = Some (RSet S) \<and> ID m \<in> S) \<and>
           connections s' (ID m) = Some \<lparr>meta = m, queue = nxt s\<rparr> \<and>
           (\<exists>c s''. Get no_fault (ID m) s' = (Inr c, s'') \<and> meta c = m)"
  using assms
  by (auto simp: op_defs no_fault_def prefix_def Let_def
      split: if_splits option.splits rvalue.splits prod.splits sum.splits)

theorem Register_publish_failure_keeps_session_witness:
  "\<not> publish_fails MarshalMeta \<and>
   redis_Set publish_fails (prefix @ ID demo_meta) (MetaJSON demo_meta) demo_store0 =
     (None, demo_store0\<lparr>redis := [''session:s1'' \<mapsto> RString (MetaJSON demo_meta)]\<rparr>) \<and>
   redis_SAdd publish_fails (prefix @ ''ids'') (ID demo_meta)
       (demo_store0\<lparr>redis := [''session:s1'' \<mapsto> RString (MetaJSON demo_meta)]\<rparr>) =
     (None, demo_store0\<lparr>redis := [''session:s1'' \<mapsto> RString (MetaJSON demo_meta),
                                    ''session:ids'' \<mapsto> RSet {''s1''}]\<rparr>) \<and>
   publish_fails CmdPublish \<and>
   Register publish_fails demo_meta demo_store0 =
     (Inl (Errorf ''failed to publish session creation''), demo_store1\<lparr>pubsub := []\<rparr>) \<and>
   redis (demo_store1\<lparr>pubsub := []\<rparr>) ''session:s1'' = Some (RString (MetaJSON demo_meta)) \<and>
   redis (demo_store1\<lparr>pubsub := []\<rparr>) ''session:ids'' = Some (RSet {''s1''}) \<and>
   connections (demo_store1\<lparr>pubsub := []\<rparr>) ''s1'' = Some demo_conn \<and>
   fst (Get no_fault ''s1'' (demo_store1\<lparr>pubsub := []\<rparr>)) = Inr \<lparr>meta = demo_meta, queue = 1\<rparr>"
proof -
  have h1: "\<not> publish_fails MarshalMeta" by (simp add: publish_fails_def)
  have h2: "redis_Set publish_fails (prefix @ ID demo_meta) (MetaJSON demo_meta) demo_store0 =
     (None, demo_store0\<lparr>redis := [''session:s1'' \<mapsto> RString (MetaJSON demo_meta)]\<rparr>)"
    by (simp add: redis_Set_def demo_defs)
  have h3: "redis_SAdd publish_fails (prefix @ ''ids'') (ID demo_meta)
       (demo_store0\<lparr>redis := [''session:s1'' \<mapsto> RString (MetaJSON demo_meta)]\<rparr>) =
     (None, demo_store0\<lparr>redis := [''session:s1'' \<mapsto> RString (MetaJSON demo_meta),
                                    ''session:ids'' \<mapsto> RSet {''s1''}]\<rparr>)"
    by (simp add: redis_SAdd_def demo_defs)
  have h4: "publish_fails MarshalUpdate \<or> publish_fails CmdPublish" by (simp add: publish_fails_def)
  have r: "Register publish_fails demo_meta demo_store0 =
     (Inl (Errorf ''failed to publish session creation''), demo_store1\<lparr>pubsub := []\<rparr>)"
    by (simp add: op_defs demo_defs Let_def)
  show ?thesis
    using Register_publish_failure_keeps_session [OF h1 h2 h3 h4] h1 h2 h3 h4 r
    by (simp add: demo_store1_eq op_defs no_fault_def prefix_def demo_meta_def demo_conn_def
          publish_fails_def)
qed

subsection \<open>Unregister\<close>





subsection \<open>The queue: capacity and overflow\<close>

lemma handleUpdate_event:
  assumes "connections s (ID (m::Meta)) = Some c" and "chans s (queue c) = Some ch"
    and "cap ch = 100" and "\<not> closed ch"
  shows "handleUpdate (UpdateJSON \<lparr>Action = ''event'', UMeta = Some m, UMessage = Some e\<rparr>) s =
           Some (if length (buf ch) < 100
                 then zap InfoLevel ''sent message to connection queue''
                        [String ''id'' (ID m), String ''event'' (Event e)]
                        (s\<lparr>chans := (chans s)(queue c \<mapsto> ch\<lparr>buf := buf ch @ [Some e]\<rparr>)\<rparr>)
                 else zap WarnLevel ''connection queue is full, dropping message''
                        [String ''id'' (ID m), String ''event'' (Event e)] s)"
  using assms by (simp add: handleUpdate_def try_send_def)

lemma handleUpdate_pubsub:
  "handleUpdate p (s\<lparr>pubsub := x\<rparr>) = map_option (\<lambda>t. t\<lparr>pubsub := x\<rparr>) (handleUpdate p s)"
  by (auto simp: handleUpdate_def try_send_def zap_def
      split: payload.splits option.splits sum.splits if_splits)

lemma handleUpdate_keeps_pubsub: "handleUpdate p s = Some s' \<Longrightarrow> pubsub s' = pubsub s"
  by (auto simp: handleUpdate_def try_send_def zap_def
      split: payload.splits option.splits sum.splits if_splits)

lemma reachable_handleUpdates:
  "reachable s \<Longrightarrow> handleUpdates (pubsub s) (s\<lparr>pubsub := []\<rparr>) = Some s' \<Longrightarrow> reachable s'"
proof (induction "pubsub s" arbitrary: s)
  case Nil
  from Nil.hyps have e: "s\<lparr>pubsub := []\<rparr> = s" by (cases s) simp
  from Nil.hyps Nil.prems(2) have "s\<lparr>pubsub := []\<rparr> = s'" by (metis handleUpdates.simps(1) option.inject)
  with e Nil.prems(1) show ?case by simp
next
  case (Cons p ps)
  from Cons.hyps(2) have ps: "pubsub s = p # ps" by simp
  from Cons.prems(2) ps obtain t where t: "handleUpdate p (s\<lparr>pubsub := []\<rparr>) = Some t"
    and rest: "handleUpdates ps t = Some s'"
    by (auto split: option.splits)
  have t_ps: "pubsub t = []" using handleUpdate_keeps_pubsub [OF t] by simp
  have d: "handleUpdate p (s\<lparr>pubsub := ps\<rparr>) = Some (t\<lparr>pubsub := ps\<rparr>)"
    using handleUpdate_pubsub [where p = p and s = "s\<lparr>pubsub := []\<rparr>" and x = ps] t by simp
  have r1: "reachable (t\<lparr>pubsub := ps\<rparr>)"
    by (rule reachable_step [OF Cons.prems(1) step_deliver [OF ps d]])
  have "t\<lparr>pubsub := ps\<rparr>\<lparr>pubsub := []\<rparr> = t" using t_ps by simp
  with rest have "handleUpdates (pubsub (t\<lparr>pubsub := ps\<rparr>)) (t\<lparr>pubsub := ps\<rparr>\<lparr>pubsub := []\<rparr>) = Some s'"
    by simp
  moreover have "ps = pubsub (t\<lparr>pubsub := ps\<rparr>)" by simp
  ultimately show ?case using Cons.hyps(1) r1 by blast
qed

lemma handleUpdates_flood:
  assumes "connections s (ID m) = Some c" and "chans s (queue c) = Some ch"
    and "cap ch = 100" and "\<not> closed ch" and "length (buf ch) \<le> 100"
  shows "\<exists>s'. handleUpdates
                (replicate n (UpdateJSON \<lparr>Action = ''event'', UMeta = Some m, UMessage = Some e\<rparr>)) s
              = Some s' \<and>
              connections s' = connections s \<and>
              chans s' = (chans s)(queue c \<mapsto>
                 ch\<lparr>buf := buf ch @ replicate (min n (100 - length (buf ch))) (Some e)\<rparr>) \<and>
              warnings s' = warnings s + (n - (100 - length (buf ch)))"
  using assms
proof (induction n arbitrary: s ch)
  case 0
  then show ?case by (simp add: fun_upd_idem)
next
  case (Suc n)
  let ?p = "UpdateJSON \<lparr>Action = ''event'', UMeta = Some m, UMessage = Some e\<rparr>"
  show ?case
  proof (cases "length (buf ch) < 100")
    case True
    let ?ch1 = "ch\<lparr>buf := buf ch @ [Some e]\<rparr>"
    let ?s1 = "zap InfoLevel ''sent message to connection queue''
                 [String ''id'' (ID m), String ''event'' (Event e)]
                 (s\<lparr>chans := (chans s)(queue c \<mapsto> ?ch1)\<rparr>)"
    have h: "handleUpdate ?p s = Some ?s1"
      using handleUpdate_event [OF Suc.prems(1-4), of e] True by simp
    have a: "connections ?s1 (ID m) = Some c" using Suc.prems(1) by (simp add: zap_def)
    have b: "chans ?s1 (queue c) = Some ?ch1" by (simp add: zap_def)
    have c: "cap ?ch1 = 100" "\<not> closed ?ch1" "length (buf ?ch1) \<le> 100"
      using Suc.prems True by simp_all
    from Suc.IH [OF a b c] obtain s' where
      s': "handleUpdates (replicate n ?p) ?s1 = Some s'"
        "connections s' = connections ?s1"
        "chans s' = (chans ?s1)(queue c \<mapsto>
           ?ch1\<lparr>buf := buf ?ch1 @ replicate (min n (100 - length (buf ?ch1))) (Some e)\<rparr>)"
        "warnings s' = warnings ?s1 + (n - (100 - length (buf ?ch1)))"
      by blast
    have w: "warnings ?s1 = warnings s" by (simp add: warnings_def zap_def)
    have m: "min (Suc n) (100 - length (buf ch)) = Suc (min n (100 - length (buf ?ch1)))"
      using True by auto
    show ?thesis
      using s' h w True
      by (auto simp: zap_def m replicate_app_Cons_same intro!: exI [of _ s'])
  next
    case False
    with Suc.prems have full: "length (buf ch) = 100" by simp
    let ?s1 = "zap WarnLevel ''connection queue is full, dropping message''
                 [String ''id'' (ID m), String ''event'' (Event e)] s"
    have h: "handleUpdate ?p s = Some ?s1"
      using handleUpdate_event [OF Suc.prems(1-4), of e] False by simp
    have a: "connections ?s1 (ID m) = Some c" using Suc.prems(1) by (simp add: zap_def)
    have b: "chans ?s1 (queue c) = Some ch" using Suc.prems(2) by (simp add: zap_def)
    from Suc.IH [OF a b Suc.prems(3-5)] obtain s' where
      s': "handleUpdates (replicate n ?p) ?s1 = Some s'"
        "connections s' = connections ?s1"
        "chans s' = (chans ?s1)(queue c \<mapsto>
           ch\<lparr>buf := buf ch @ replicate (min n (100 - length (buf ch))) (Some e)\<rparr>)"
        "warnings s' = warnings ?s1 + (n - (100 - length (buf ch)))"
      by blast
    have w: "warnings ?s1 = Suc (warnings s)" by (simp add: warnings_def zap_def)
    show ?thesis
      using s' h w full
      by (auto simp: zap_def intro!: exI [of _ s'])
  qed
qed


lemma reachable_demo_flood: "reachable demo_flood"
  unfolding demo_flood_def by (rule reachable_step [OF reachable_demo_store1 step_outside])

lemma demo_flooded_run:
  "\<exists>s'. handleUpdates (pubsub demo_flood) (demo_flood\<lparr>pubsub := []\<rparr>) = Some s' \<and>
         connections s' ''s1'' = Some demo_conn \<and>
         chans s' 0 = Some \<lparr>buf = replicate 100 (Some demo_msg), cap = 100, closed = False\<rparr> \<and>
         warnings s' = 50"
proof -
  let ?s0 = "demo_flood\<lparr>pubsub := []\<rparr>"
  let ?s1 = "zap DebugLevel ''received session update''
               [String ''action'' ''create'', String ''id'' ''s1''] ?s0"
  let ?ch = "\<lparr>buf = [], cap = 100, closed = False\<rparr>"
  have ps: "pubsub demo_flood =
      UpdateJSON \<lparr>Action = ''create'', UMeta = Some demo_meta, UMessage = None\<rparr> #
      replicate 150 (UpdateJSON \<lparr>Action = ''event'', UMeta = Some demo_meta, UMessage = Some demo_msg\<rparr>)"
    by (simp add: demo_flood_def demo_store1_eq demo_event_payload_def)
  have c: "handleUpdate (UpdateJSON \<lparr>Action = ''create'', UMeta = Some demo_meta, UMessage = None\<rparr>) ?s0
             = Some ?s1"
    by (simp add: handleUpdate_def demo_meta_def)
  have a1: "connections ?s1 (ID demo_meta) = Some demo_conn"
    by (simp add: zap_def demo_flood_def demo_store1_eq demo_meta_def)
  have a2: "chans ?s1 (queue demo_conn) = Some ?ch"
    by (simp add: zap_def demo_flood_def demo_store1_eq demo_conn_def)
  have a3: "cap ?ch = 100" "\<not> closed ?ch" "length (buf ?ch) \<le> 100" by simp_all
  from handleUpdates_flood [OF a1 a2 a3, of 150 demo_msg] obtain s' where
    s': "handleUpdates (replicate 150
            (UpdateJSON \<lparr>Action = ''event'', UMeta = Some demo_meta, UMessage = Some demo_msg\<rparr>)) ?s1
          = Some s'"
      "connections s' = connections ?s1"
      "chans s' = (chans ?s1)(queue demo_conn \<mapsto>
          ?ch\<lparr>buf := buf ?ch @ replicate (min 150 (100 - length (buf ?ch))) (Some demo_msg)\<rparr>)"
      "warnings s' = warnings ?s1 + (150 - (100 - length (buf ?ch)))"
    by blast
  have w: "warnings ?s1 = 0"
    by (simp add: warnings_def zap_def demo_flood_def demo_store1_eq)
  have "handleUpdates (pubsub demo_flood) ?s0 = Some s'" using ps c s'(1) by simp
  moreover have "connections s' ''s1'' = Some demo_conn"
    using s'(2) a1 by (simp add: demo_meta_def)
  moreover have "chans s' 0 = Some \<lparr>buf = replicate 100 (Some demo_msg), cap = 100, closed = False\<rparr>"
    using s'(3) by (simp add: demo_conn_def)
  moreover have "warnings s' = 50" using s'(4) w by simp
  ultimately show ?thesis by blast
qed

text \<open>
  Scenario S6 of the specification: after 150 events for a session whose queue nobody
  reads, the queue holds exactly 100 messages and the log has 50 warnings.
\<close>

lemma demo_flooded_facts:
  "reachable demo_flooded \<and>
   connections demo_flooded ''s1'' = Some demo_conn \<and>
   chans demo_flooded 0 = Some \<lparr>buf = replicate 100 (Some demo_msg), cap = 100, closed = False\<rparr> \<and>
   warnings demo_flooded = 50"
proof -
  from demo_flooded_run obtain s' where
    s': "handleUpdates (pubsub demo_flood) (demo_flood\<lparr>pubsub := []\<rparr>) = Some s'"
      "connections s' ''s1'' = Some demo_conn"
      "chans s' 0 = Some \<lparr>buf = replicate 100 (Some demo_msg), cap = 100, closed = False\<rparr>"
      "warnings s' = 50"
    by blast
  have eq: "demo_flooded = s'" by (simp add: demo_flooded_def s'(1))
  have "reachable s'" by (rule reachable_handleUpdates [OF reachable_demo_flood s'(1)])
  with s' eq show ?thesis by simp
qed

text \<open>
  C7: in every state the store can reach, every event queue has capacity exactly 100, is
  open and holds at most 100 messages. An event for a session that has a connection in the
  map is handled at once, whatever the state of the queue (the push never blocks): with
  room in the queue the message is appended at its end; with a full queue the message is
  dropped, the queue, the connections map and everything else but the log stay as they are
  (the session is not closed), and the log gains a warning that names the session id and
  the event.
\<close>

theorem queue_capacity_drop_newest:
  assumes "reachable s"
  shows "(\<forall>a ch. chans s a = Some ch \<longrightarrow> cap ch = 100 \<and> length (buf ch) \<le> 100 \<and> \<not> closed ch) \<and>
         (\<forall>(m::Meta) e c. connections s (ID m) = Some c \<longrightarrow>
            (\<exists>ch. chans s (queue c) = Some ch \<and>
               handleUpdate (UpdateJSON \<lparr>Action = ''event'', UMeta = Some m, UMessage = Some e\<rparr>) s =
                 Some (if length (buf ch) < 100
                       then zap InfoLevel ''sent message to connection queue''
                              [String ''id'' (ID m), String ''event'' (Event e)]
                              (s\<lparr>chans := (chans s)(queue c \<mapsto> ch\<lparr>buf := buf ch @ [Some e]\<rparr>)\<rparr>)
                       else zap WarnLevel ''connection queue is full, dropping message''
                              [String ''id'' (ID m), String ''event'' (Event e)] s)))"
proof -
  have ok: "heap_ok s" using assms by (rule heap_ok_reachable)
  have inv: "cap ch = 100 \<and> length (buf ch) \<le> 100 \<and> \<not> closed ch" if "chans s a = Some ch" for a ch
    using ok that unfolding heap_ok_def by blast
  have ex: "\<exists>ch. chans s (queue c) = Some ch" if "connections s i = Some c" for i c
    using ok that unfolding heap_ok_def by blast
  show ?thesis
  proof (intro conjI allI impI)
    fix m :: Meta and e c assume c: "connections s (ID m) = Some c"
    from ex [OF c] obtain ch where ch: "chans s (queue c) = Some ch" ..
    from inv [OF ch] have "cap ch = 100" "\<not> closed ch" by simp_all
    with c ch show "\<exists>ch. chans s (queue c) = Some ch \<and>
               handleUpdate (UpdateJSON \<lparr>Action = ''event'', UMeta = Some m, UMessage = Some e\<rparr>) s =
                 Some (if length (buf ch) < 100
                       then zap InfoLevel ''sent message to connection queue''
                              [String ''id'' (ID m), String ''event'' (Event e)]
                              (s\<lparr>chans := (chans s)(queue c \<mapsto> ch\<lparr>buf := buf ch @ [Some e]\<rparr>)\<rparr>)
                       else zap WarnLevel ''connection queue is full, dropping message''
                              [String ''id'' (ID m), String ''event'' (Event e)] s)"
      using handleUpdate_event [of s m c ch e] by blast
  qed (use inv in blast)+
qed

theorem queue_capacity_drop_newest_witness:
  "reachable demo_flooded \<and>
   connections demo_flooded (ID demo_meta) = Some demo_conn \<and>
   chans demo_flooded (queue demo_conn) =
     Some \<lparr>buf = replicate 100 (Some demo_msg), cap = 100, closed = False\<rparr> \<and>
   handleUpdate demo_event_payload demo_flooded =
     Some (zap WarnLevel ''connection queue is full, dropping message''
             [String ''id'' ''s1'', String ''event'' ''message''] demo_flooded)"
proof -
  have r: "reachable demo_flooded" using demo_flooded_facts by simp
  have c: "connections demo_flooded (ID demo_meta) = Some demo_conn"
    using demo_flooded_facts by (simp add: demo_meta_def)
  have q: "chans demo_flooded (queue demo_conn) =
     Some \<lparr>buf = replicate 100 (Some demo_msg), cap = 100, closed = False\<rparr>"
    using demo_flooded_facts by (simp add: demo_conn_def)
  from queue_capacity_drop_newest [OF r] c
  obtain ch where ch: "chans demo_flooded (queue demo_conn) = Some ch"
    and h: "handleUpdate (UpdateJSON \<lparr>Action = ''event'', UMeta = Some demo_meta,
                                      UMessage = Some demo_msg\<rparr>) demo_flooded =
      Some (if length (buf ch) < 100
            then zap InfoLevel ''sent message to connection queue''
                   [String ''id'' (ID demo_meta), String ''event'' (Event demo_msg)]
                   (demo_flooded\<lparr>chans := (chans demo_flooded)(queue demo_conn \<mapsto>
                      ch\<lparr>buf := buf ch @ [Some demo_msg]\<rparr>)\<rparr>)
            else zap WarnLevel ''connection queue is full, dropping message''
                   [String ''id'' (ID demo_meta), String ''event'' (Event demo_msg)] demo_flooded)"
    by blast
  from ch q have "length (buf ch) = 100" by auto
  with h have "handleUpdate demo_event_payload demo_flooded =
     Some (zap WarnLevel ''connection queue is full, dropping message''
             [String ''id'' ''s1'', String ''event'' ''message''] demo_flooded)"
    by (simp add: demo_event_payload_def demo_meta_def demo_msg_def)
  with r c q show ?thesis by simp
qed

subsection \<open>Connections returned by Get\<close>

lemma detached_below: "detached a s \<Longrightarrow> a < nxt s"
  unfolding detached_def heap_ok_def by blast

lemma detached_frame:
  "connections s' = connections s \<Longrightarrow> chans s' = chans s \<Longrightarrow> nxt s' = nxt s \<Longrightarrow>
     detached a s' = detached a s"
  by (simp add: detached_def heap_ok_def)

lemma publishUpdate_same:
  "connections (snd (publishUpdate F x m v s)) = connections s \<and>
   chans (snd (publishUpdate F x m v s)) = chans s \<and> nxt (snd (publishUpdate F x m v s)) = nxt s"
  by (auto simp: publishUpdate_def redis_Publish_def split: if_splits)

lemma detached_publishUpdate: "detached a s \<Longrightarrow> detached a (snd (publishUpdate F x m v s))"
  using detached_frame [of "snd (publishUpdate F x m v s)" s a] publishUpdate_same [of F x m v s]
  by simp

lemma Register_shape:
  "snd (Register F m s) = s' \<Longrightarrow>
     (connections s' = connections s \<and> chans s' = chans s \<and> nxt s' = nxt s) \<or>
     (connections s' = (connections s)(ID m \<mapsto> \<lparr>meta = m, queue = nxt s\<rparr>) \<and>
      chans s' = (chans s)(nxt s \<mapsto> \<lparr>buf = [], cap = 100, closed = False\<rparr>) \<and>
      nxt s' = Suc (nxt s))"
  by (auto simp: op_defs Let_def
      split: if_splits option.splits rvalue.splits prod.splits sum.splits)

lemma detached_Register: assumes "detached a s" shows "detached a (snd (Register F m s))"
proof -
  have lt: "a < nxt s" using assms by (rule detached_below)
  have ok: "heap_ok (snd (Register F m s))" using assms by (simp add: detached_def heap_ok_Register)
  from Register_shape [OF refl, of F m s] show ?thesis
  proof
    assume "connections (snd (Register F m s)) = connections s \<and>
      chans (snd (Register F m s)) = chans s \<and> nxt (snd (Register F m s)) = nxt s"
    then show ?thesis using assms detached_frame by blast
  next
    assume "connections (snd (Register F m s)) = (connections s)(ID m \<mapsto> \<lparr>meta = m, queue = nxt s\<rparr>) \<and>
      chans (snd (Register F m s)) = (chans s)(nxt s \<mapsto> \<lparr>buf = [], cap = 100, closed = False\<rparr>) \<and>
      nxt (snd (Register F m s)) = Suc (nxt s)"
    then show ?thesis using assms lt ok unfolding detached_def by auto
  qed
qed

lemma Get_shape:
  "snd (Get F sid s) = s' \<Longrightarrow>
     connections s' = connections s \<and> nxt s \<le> nxt s' \<and>
     (\<forall>a. a < nxt s \<longrightarrow> chans s' a = chans s a)"
  by (auto simp: op_defs Let_def
      split: if_splits option.splits rvalue.splits prod.splits sum.splits bytes.splits)

lemma detached_Get: assumes "detached a s" shows "detached a (snd (Get F sid s))"
proof -
  have lt: "a < nxt s" using assms by (rule detached_below)
  have ok: "heap_ok (snd (Get F sid s))" using assms by (simp add: detached_def heap_ok_Get)
  from Get_shape [OF refl, of F sid s] assms lt ok show ?thesis
    unfolding detached_def by auto
qed

lemma Unregister_shape:
  "connections (snd (Unregister F sid s)) = (connections s)(sid := None) \<and>
   chans (snd (Unregister F sid s)) = chans s \<and> nxt (snd (Unregister F sid s)) = nxt s"
  by (auto simp: op_defs Let_def
      split: if_splits option.splits rvalue.splits prod.splits sum.splits)

lemma detached_Unregister: assumes "detached a s" shows "detached a (snd (Unregister F sid s))"
proof -
  have ok: "heap_ok (snd (Unregister F sid s))" using assms by (simp add: detached_def heap_ok_Unregister)
  from Unregister_shape [of F sid s] assms ok show ?thesis
    unfolding detached_def by (auto split: if_splits)
qed

lemma detached_Send: "detached a s \<Longrightarrow> detached a (snd (Send F c v s))"
  by (simp add: Send_def detached_publishUpdate)

lemma try_send_shape:
  "try_send q v s = Inr (Some s') \<Longrightarrow>
     connections s' = connections s \<and> nxt s' = nxt s \<and> (\<forall>a. a \<noteq> q \<longrightarrow> chans s' a = chans s a)"
  by (auto simp: try_send_def split: option.splits if_splits)

lemma handleUpdate_shape:
  "handleUpdate p s = Some s' \<Longrightarrow>
     connections s' = connections s \<and> nxt s' = nxt s \<and>
     (\<forall>a. (\<forall>i c. connections s i = Some c \<longrightarrow> queue c \<noteq> a) \<longrightarrow> chans s' a = chans s a)"
  unfolding handleUpdate_def
  by (fastforce simp: zap_def dest!: try_send_shape
      split: if_splits option.splits payload.splits sum.splits)

lemma detached_handleUpdate:
  assumes "detached a s" and "handleUpdate p s = Some s'" shows "detached a s'"
proof -
  have ok: "heap_ok s'" using assms by (auto simp: detached_def dest: heap_ok_handleUpdate)
  from handleUpdate_shape [OF assms(2)] assms(1) have "chans s' a = chans s a"
    unfolding detached_def by blast
  with handleUpdate_shape [OF assms(2)] assms(1) ok show ?thesis
    unfolding detached_def by auto
qed

lemma detached_step: "step s s' \<Longrightarrow> detached a s \<Longrightarrow> detached a s'"
proof (induction rule: step.induct)
  case (step_deliver s p ps s')
  have "detached a (s\<lparr>pubsub := ps\<rparr>) = detached a s" by (rule detached_frame) simp_all
  with step_deliver.prems have "detached a (s\<lparr>pubsub := ps\<rparr>)" by simp
  then show ?case using step_deliver.hyps(2) by (rule detached_handleUpdate)
next
  case (step_receive s b ch v vs)
  have ok: "heap_ok (s\<lparr>chans := (chans s)(b \<mapsto> ch\<lparr>buf := vs\<rparr>)\<rparr>)"
    using step_receive by (auto simp: detached_def intro: heap_ok_step step.step_receive)
  from step_receive have "b \<noteq> a" by (auto simp: detached_def)
  with step_receive ok show ?case unfolding detached_def by auto
next
  case step_lost
  then show ?case by (simp add: detached_def heap_ok_def)
next
  case step_outside
  then show ?case by (simp add: detached_def heap_ok_def)
qed (simp_all add: detached_Register detached_Get detached_Unregister detached_Send)

lemma detached_steps: "step\<^sup>*\<^sup>* s s' \<Longrightarrow> detached a s \<Longrightarrow> detached a s'"
  by (induction rule: rtranclp_induct) (auto intro: detached_step)

lemma Get_Inr:
  assumes "Get F sid s = (Inr c, s')"
  shows "queue c = nxt s \<and> connections s' = connections s \<and>
         chans s' = (chans s)(nxt s \<mapsto> \<lparr>buf = [], cap = 100, closed = False\<rparr>)"
  using assms
  by (auto simp: op_defs Let_def
      split: if_splits option.splits rvalue.splits prod.splits sum.splits bytes.splits)

text \<open>
  C8: a connection returned by Get is a new object: its queue is a channel that did not
  exist before the call, new, empty and of capacity 100, and Get leaves the connections map
  as it was. Whatever the store does afterwards, no connection of the map is that object or
  has that queue, and the queue stays empty: the subscriber pushes events only to the queues
  of the connections of the map, which only Register puts there.
\<close>

theorem Get_connection_never_fed:
  assumes "reachable s" and "Get F sid s = (Inr c, s1)" and "step\<^sup>*\<^sup>* s1 s2"
  shows "chans s (queue c) = None \<and>
         chans s1 (queue c) = Some \<lparr>buf = [], cap = 100, closed = False\<rparr> \<and>
         connections s1 = connections s \<and>
         (\<forall>i c'. connections s2 i = Some c' \<longrightarrow> c' \<noteq> c \<and> queue c' \<noteq> queue c) \<and>
         (\<exists>ch. chans s2 (queue c) = Some ch \<and> buf ch = [])"
proof -
  have ok: "heap_ok s" using assms(1) by (rule heap_ok_reachable)
  note G = Get_Inr [OF assms(2)]
  have fresh: "chans s (nxt s) = None" using ok by (rule heap_ok_fresh)
  have ok1: "heap_ok s1" using heap_ok_Get [OF ok, of F sid] assms(2) by simp
  have old: "queue c' < nxt s" if "connections s i = Some c'" for i c'
    using ok that by (rule heap_ok_conn_below)
  have "detached (queue c) s1"
    unfolding detached_def using ok1 G old by fastforce
  then have "detached (queue c) s2" by (rule detached_steps [OF assms(3)])
  then show ?thesis using G fresh unfolding detached_def by auto
qed

theorem Get_connection_never_fed_witness:
  "reachable demo_store1 \<and>
   Get no_fault ''s1'' demo_store1 = (Inr demo_got, demo_get1) \<and>
   step\<^sup>*\<^sup>* demo_get1 demo_get3 \<and>
   chans demo_store1 (queue demo_got) = None \<and>
   chans demo_get1 (queue demo_got) = Some \<lparr>buf = [], cap = 100, closed = False\<rparr> \<and>
   connections demo_get3 ''s1'' = Some demo_conn \<and> demo_conn \<noteq> demo_got \<and>
   chans demo_get3 (queue demo_conn) = Some \<lparr>buf = [Some demo_msg], cap = 100, closed = False\<rparr> \<and>
   chans demo_get3 (queue demo_got) = Some \<lparr>buf = [], cap = 100, closed = False\<rparr>"
proof -
  have g: "Get no_fault ''s1'' demo_store1 = (Inr demo_got, demo_get1)"
    unfolding demo_get1_def demo_Get by simp
  show ?thesis
    using Get_connection_never_fed [OF reachable_demo_store1 g demo_get_steps]
      reachable_demo_store1 g demo_get_steps
    by (simp add: demo_get3_eq demo_get1_eq demo_store1_eq demo_got_def demo_conn_def)
qed

section \<open>Properties of the handlers\<close>

lemmas status_defs = StatusOK_def StatusAccepted_def StatusBadRequest_def StatusNotFound_def
  StatusMethodNotAllowed_def StatusNotAcceptable_def StatusInternalServerError_def

lemmas method_defs = Initialize_def NotificationInitialized_def ToolsList_def ToolsCall_def

lemmas handler_demo_defs = demo_lib_def demo_srv_def demo_conn_a_def demo_post_def
  demo_call_echo_def demo_call_missing_def demo_get_request_def demo_cfg_a_def demo_cfg_b_def
  RedisStore_impl_def

subsection \<open>tools/call\<close>

text \<open>
  A \<open>tools/call\<close> whose parameters decode is rejected with MethodNotFound (code -32601,
  HTTP 404) exactly when \<open>params.name\<close> is not a key of the tool map of the snapshot; the
  response is then that single protocol error.
\<close>

lemma tools_call_absent_rejected:
  assumes "Method req = ToolsCall"
    and "Unmarshal_CallToolParams lib (Params req) = Inr params"
  shows "(handleMCPRequest srv lib httpreq req conn =
            ([ProtocolError (Id req) ErrorCodeMethodNotFound ''Tool not found'' 404], None)
          \<longleftrightarrow> toolMap srv (Params_Name params) = None) \<and>
         ((\<exists>rid message status.
              ProtocolError rid ErrorCodeMethodNotFound message status
                \<in> set (fst (handleMCPRequest srv lib httpreq req conn)))
          \<longleftrightarrow> toolMap srv (Params_Name params) = None) \<and>
         jsonrpc_code ErrorCodeMethodNotFound = Some (- 32601)"
  using assms
  by (auto simp: handleMCPRequest_def method_defs status_defs sendProtocolError_def
        sendSuccessResponse_def sendToolExecutionError_def
      split: option.splits sum.splits)

text \<open>
  What a \<open>tools/call\<close> does is the same whatever tools the prefixes list and whatever tools
  the servers allow: neither \<open>prefixToTools\<close> nor \<open>AllowedTools\<close> is read on that path.
\<close>

lemma tools_call_reads_no_allowed_set:
  assumes "Method req = ToolsCall"
  shows "handleMCPRequest
           (srv\<lparr>prefixToTools := listed,
                prefixToServerConfig :=
                  (\<lambda>p. map_option (\<lambda>cfg. cfg\<lparr>AllowedTools := allowed p\<rparr>)
                         (prefixToServerConfig srv p))\<rparr>)
           lib httpreq req conn =
         handleMCPRequest srv lib httpreq req conn"
  using assms
  by (auto simp: handleMCPRequest_def method_defs split: option.splits sum.splits)

text \<open>
  C3, at a call of a tool that exists and is not allowed for the prefix of the session: the
  dispatcher has to reject it with MethodNotFound (code -32601, HTTP 404). In the concrete
  gateway the session \<open>s1\<close> is registered under \<open>/a\<close>, whose server allows no tool and lists
  none; the call of \<open>echo\<close> on that session is not rejected: the tool is found in the tool
  map of the whole snapshot and executed, and its output is sent as a successful result.
  A call of \<open>missing\<close>, which is in no map, is rejected as the claim says.
\<close>

theorem tools_call_ignores_allowed_set:
  "Method demo_call_echo = ToolsCall \<and>
   Unmarshal_CallToolParams demo_lib (Params demo_call_echo) =
     Inr \<lparr>Params_Name = ''echo'', Arguments = ''{}''\<rparr> \<and>
   Prefix (Conn_Meta (sessions demo_srv) demo_conn_a) = ''/a'' \<and>
   prefixToServerConfig demo_srv ''/a'' = Some demo_cfg_a \<and>
   ''echo'' \<notin> set (AllowedTools demo_cfg_a) \<and>
   prefixToTools demo_srv ''/a'' = Some [] \<and>
   handleMCPRequest demo_srv demo_lib (demo_post ''s1'' ''call echo'') demo_call_echo demo_conn_a =
     ([SuccessResponse (meta demo_conn_a) demo_call_echo
         (CallToolResult [\<lparr>Content_Type = ''text'', Text = ''hi''\<rparr>] False) False],
      None) \<and>
   handleMCPRequest demo_srv demo_lib (demo_post ''s1'' ''call missing'') demo_call_missing
     demo_conn_a =
     ([ProtocolError (Some ''4'') ErrorCodeMethodNotFound ''Tool not found'' 404], None)"
  by (simp add: handleMCPRequest_def handler_demo_defs method_defs status_defs
        sendSuccessResponse_def sendProtocolError_def)

subsection \<open>The drain loop\<close>

text \<open>
  C4, at the input of scenario S4 of the specification: the drain loop receives the message
  with event \<open>message\<close> and data \<open>{"k":1}\<close>, then the request context ends. The loop writes the
  formatted frame, then writes the message value itself with a second \<open>Fprint\<close>, and only
  then flushes: the stream carries more than the frame.
\<close>

theorem drain_writes_message_twice:
  \<open>drain [Recv (Some demo_msg), CtxDone] =
     ([Fprint ''event: message\<newline>data: {"k":1}\<newline>\<newline>'', FprintValue demo_msg, Flush], Returned)\<close>
  by (simp add: demo_msg_def)

subsection \<open>GET without a session id\<close>

text \<open>
  C9: a GET that accepts \<open>text/event-stream\<close> and carries no \<open>Mcp-Session-Id\<close> header gets the
  400 protocol error, and \<open>handleGet\<close> goes on: it looks the empty id up in the store, and
  when that fails it writes a second protocol error, with HTTP 404, into the same response,
  and returns.
\<close>

theorem handleGet_missing_session_id:
  assumes "Contains (GetHeader req ''Accept'') ''text/event-stream''"
    and "GetHeader req ''Mcp-Session-Id'' = []"
    and "Store_Get (sessions srv) [] st = (Inl err, st')"
  shows "handleGet srv req sel st =
           (([ProtocolError None ErrorCodeConnectionClosed
                ''Bad Request: Mcp-Session-Id header is required'' 400,
              ProtocolError None ErrorCodeRequestTimeout ''Session not found'' 404],
             Returned), st')"
  using assms
  by (simp add: handleGet_def sendProtocolError_def status_defs)

theorem handleGet_missing_session_id_witness:
  "Contains (GetHeader demo_get_request ''Accept'') ''text/event-stream'' \<and>
   GetHeader demo_get_request ''Mcp-Session-Id'' = [] \<and>
   Store_Get (sessions demo_srv) [] demo_store1 = (Inl ErrSessionNotFound, demo_store1) \<and>
   handleGet demo_srv demo_get_request [] demo_store1 =
     (([ProtocolError None ErrorCodeConnectionClosed
          ''Bad Request: Mcp-Session-Id header is required'' 400,
        ProtocolError None ErrorCodeRequestTimeout ''Session not found'' 404],
       Returned), demo_store1)"
proof -
  have h1: "Contains (GetHeader demo_get_request ''Accept'') ''text/event-stream''"
    by (simp add: demo_get_request_def GetHeader_def)
  have h2: "GetHeader demo_get_request ''Mcp-Session-Id'' = []"
    by (simp add: demo_get_request_def GetHeader_def)
  have h3: "Store_Get (sessions demo_srv) [] demo_store1 = (Inl ErrSessionNotFound, demo_store1)"
    by (simp add: demo_srv_def RedisStore_impl_def demo_store1_eq Get_def redis_SIsMember_def
          no_fault_def prefix_def)
  show ?thesis
    using handleGet_missing_session_id [OF h1 h2 h3, of "[]"] h1 h2 h3 by simp
qed

subsection \<open>initialize\<close>






section \<open>Properties of the reload controller\<close>

lemma merge_failure_ends_process:
  "store_List env = Inr docs \<Longrightarrow> MergeConfigs env docs = Inl e \<Longrightarrow>
     process (handleReload env g) = Exited 1"
  by (simp add: handleReload_def logger_Fatal_def Let_def)

lemma routes_failure_keeps_process:
  "store_List env = Inr docs \<Longrightarrow> MergeConfigs env docs = Inr cfg \<Longrightarrow>
   RegisterRoutes env cfg (core_Server g) = (Some e, srv1) \<Longrightarrow>
     process (handleReload env g) = process g \<and> httpServer (handleReload env g) = httpServer g"
  by (simp add: handleReload_def logger_call_def Let_def)

text \<open>
  C1, at a reload on which \<open>MergeConfigs\<close> fails: the specification has the controller log
  the error and go on serving the old configuration. \<open>handleReload\<close> reports the failure
  with \<open>logger.Fatal\<close>, which ends the process with status 1. A failure one step later, in
  \<open>RegisterRoutes\<close>, is logged as an error and leaves the process running with the old
  server.
\<close>

theorem handleReload_merge_failure_exits:
  "store_List demo_reload = Inr [''doc1'', ''doc2''] \<and>
   MergeConfigs demo_reload [''doc1'', ''doc2''] = Inl ''duplicate prefix'' \<and>
   process demo_gateway = Running \<and>
   handleReload demo_reload demo_gateway =
     \<lparr>process = Exited 1, core_Server = 0, httpServer = 0, listening = True,
      zap_log = [\<lparr>lvl = InfoLevel, msg = ''Reloading MCP configuration'', flds = []\<rparr>,
                 \<lparr>lvl = FatalLevel, msg = ''failed to merge MCP configurations'',
                  flds = [Error]\<rparr>]\<rparr> \<and>
   process (handleReload demo_reload_routes demo_gateway) = Running \<and>
   httpServer (handleReload demo_reload_routes demo_gateway) = httpServer demo_gateway"
  by (simp add: handleReload_def logger_Fatal_def logger_call_def demo_reload_def
        demo_reload_routes_def demo_gateway_def Let_def)


end
